theory Spec2Isabelle
  imports Main "HOL-Library.Sublist"
begin

section \<open>Exceptions and strings\<close>

text \<open>
  Python strings are modelled as \<^typ>\<open>string\<close> (the UTF-8 bytes of the text). Every
  exception the program can meet is a value of \<open>exn\<close>: \<open>RuntimeError\<close> carries the
  message the program builds itself, \<open>KeyError\<close> the missing key, \<open>External\<close> stands for
  any exception raised by a collaborator (the operating system, the client library).
  \<open>Unmodelled\<close> marks format-string syntax this development does not interpret.
\<close>

datatype exn =
    RuntimeError string
  | ValueError
  | KeyError string
  | Unmodelled
  | External string

text \<open>A triple-quoted literal, one element per source line; every line ends in a newline.\<close>

definition text_lines :: "string list \<Rightarrow> string" where
  "text_lines ls = concat (map (\<lambda>l. l @ [CHR ''\<newline>'']) ls)"

text \<open>\<open>str(n)\<close> for an integer: decimal digits, with a leading minus sign when negative.\<close>

function str_nat :: "nat \<Rightarrow> string" where
  "str_nat n =
     (if n < 10 then [''0123456789'' ! n]
      else str_nat (n div 10) @ [''0123456789'' ! (n mod 10)])"
  by pat_completeness auto
termination
  by (relation "measure id") auto

definition str_int :: "int \<Rightarrow> string" where
  "str_int i = (if i < 0 then CHR ''-'' # str_nat (nat (- i)) else str_nat (nat i))"

section \<open>The prompt template\<close>

definition PROMPT_TEMPLATE :: string where
  "PROMPT_TEMPLATE = text_lines [
    ''### Task'',
    ''Generate a SQL query to answer the following question:'',
    ''`{user_question}`'',
    '''',
    ''### Database Schema'',
    ''The query will run on a database with the following schema:'',
    ''{table_metadata_string}'',
    '''',
    ''### SQL'',
    ''Follow these steps to create the SQL Query:'',
    ''1. Only use the columns and tables present in the database schema'',
    ''2. Use table aliases to prevent ambiguity when doing joins. For example, `SELECT table1.col1, table2.col1 FROM table1 JOIN table2 ON table1.id = table2.id`.'',
    '''',
    ''Given the database schema, here is the SQL query that answers `{user_question}`:'',
    ''```sql'']"

definition METADATA_DEFAULT :: string where
  "METADATA_DEFAULT = text_lines [
    ''CREATE TABLE products ('',
    ''  product_id INTEGER PRIMARY KEY, -- Unique ID for each product'',
    ''  name VARCHAR(50), -- Name of the product'',
    ''  price DECIMAL(10,2), -- Price of each unit of the product'',
    ''  quantity INTEGER  -- Current quantity in stock'',
    '');'',
    '''',
    ''CREATE TABLE customers ('',
    ''   customer_id INTEGER PRIMARY KEY, -- Unique ID for each customer'',
    ''   name VARCHAR(50), -- Name of the customer'',
    ''   address VARCHAR(100) -- Mailing address of the customer'',
    '');'',
    '''',
    ''CREATE TABLE salespeople ('',
    ''  salesperson_id INTEGER PRIMARY KEY, -- Unique ID for each salesperson '',
    ''  name VARCHAR(50), -- Name of the salesperson'',
    ''  region VARCHAR(50) -- Geographic sales region '',
    '');'',
    '''',
    ''CREATE TABLE sales ('',
    ''  sale_id INTEGER PRIMARY KEY, -- Unique ID for each sale'',
    ''  product_id INTEGER, -- ID of product sold'',
    ''  customer_id INTEGER,  -- ID of customer who made purchase'',
    ''  salesperson_id INTEGER, -- ID of salesperson who made the sale'',
    ''  sale_date DATE, -- Date the sale occurred '',
    ''  quantity INTEGER -- Quantity of product sold'',
    '');'',
    '''',
    ''CREATE TABLE product_suppliers ('',
    ''  supplier_id INTEGER PRIMARY KEY, -- Unique ID for each supplier'',
    ''  product_id INTEGER, -- Product ID supplied'',
    ''  supply_price DECIMAL(10,2) -- Unit price charged by supplier'',
    '');'',
    '''',
    ''-- sales.product_id can be joined with products.product_id'',
    ''-- sales.customer_id can be joined with customers.customer_id '',
    ''-- sales.salesperson_id can be joined with salespeople.salesperson_id'',
    ''-- product_suppliers.product_id can be joined with products.product_id'']"

subsection \<open>\<open>str.format\<close> with keyword arguments\<close>

text \<open>
  \<open>take_field\<close> reads a replacement field after its opening brace, up to the closing
  brace, and returns the field name and the text after the field. A second opening
  brace inside the name and a missing closing brace are \<open>ValueError\<close>s. Conversions
  (\<open>!\<close>), format specifications (\<open>:\<close>), attribute and index access (\<open>.\<close>, \<open>[\<close>) are
  not interpreted.
\<close>

fun take_field :: "string \<Rightarrow> string \<Rightarrow> exn + (string \<times> string)" where
  "take_field acc [] = Inl ValueError"
| "take_field acc (c # cs) =
     (if c = CHR ''}'' then Inr (rev acc, cs)
      else if c = CHR ''{'' then Inl ValueError
      else if c \<in> set ''!:.['' then Inl Unmodelled
      else take_field (c # acc) cs)"

text \<open>
  \<open>lookup_field\<close> resolves a field name. \<open>generate_prompt\<close> passes keyword arguments
  only, all of them strings, so a named field is replaced by the argument's text and a
  name that is no keyword is a \<open>KeyError\<close>. Positional fields (an empty or numeric name)
  are not interpreted.
\<close>

definition lookup_field :: "(string \<times> string) list \<Rightarrow> string \<Rightarrow> exn + string" where
  "lookup_field kwargs name =
     (if name = [] \<or> list_all (\<lambda>c. c \<in> set ''0123456789'') name then Inl Unmodelled
      else case map_of kwargs name of
             None \<Rightarrow> Inl (KeyError name)
           | Some v \<Rightarrow> Inr v)"

text \<open>
  \<open>format_str\<close> walks the template from left to right: \<open>{{\<close> and \<open>}}\<close> are literal
  braces, a single \<open>}\<close> and a trailing single \<open>{\<close> are \<open>ValueError\<close>s, a field is
  replaced by its value, everything else is copied. The first error met stops the walk.
\<close>

function (sequential) format_str :: "string \<Rightarrow> (string \<times> string) list \<Rightarrow> exn + string" where
  "format_str [] kwargs = Inr []"
| "format_str (c # cs) kwargs =
     (if c = CHR ''{'' then
        (case cs of
           [] \<Rightarrow> Inl ValueError
         | d # ds \<Rightarrow>
             if d = CHR ''{'' then
               (case format_str ds kwargs of Inl e \<Rightarrow> Inl e | Inr r \<Rightarrow> Inr (CHR ''{'' # r))
             else
               (case take_field [] cs of
                  Inl e \<Rightarrow> Inl e
                | Inr (name, rest) \<Rightarrow>
                    (case lookup_field kwargs name of
                       Inl e \<Rightarrow> Inl e
                     | Inr v \<Rightarrow>
                         (case format_str rest kwargs of
                            Inl e \<Rightarrow> Inl e
                          | Inr r \<Rightarrow> Inr (v @ r)))))
      else if c = CHR ''}'' then
        (case cs of
           [] \<Rightarrow> Inl ValueError
         | d # ds \<Rightarrow>
             if d = CHR ''}'' then
               (case format_str ds kwargs of Inl e \<Rightarrow> Inl e | Inr r \<Rightarrow> Inr (CHR ''}'' # r))
             else Inl ValueError)
      else
        (case format_str cs kwargs of Inl e \<Rightarrow> Inl e | Inr r \<Rightarrow> Inr (c # r)))"
  by pat_completeness auto
termination
proof -
  have shorter: "length rest < length cs"
    if "take_field acc cs = Inr (name, rest)" for acc cs name rest
    using that by (induction cs arbitrary: acc) (fastforce split: if_splits)+
  show ?thesis
    by (relation "measure (\<lambda>(s, kwargs). length s)")
       (auto simp del: take_field.simps dest!: shorter)
qed

subsection \<open>\<open>generate_prompt\<close>\<close>

text \<open>
  The function prints the question, formats the template with the two keyword
  arguments, prints the prompt and returns it. The result pairs the printed lines with
  the returned prompt, or with the exception \<open>format\<close> raised (then the second line was
  never printed).
\<close>

definition generate_prompt :: "string \<Rightarrow> string \<Rightarrow> string \<Rightarrow> string list \<times> (exn + string)" where
  "generate_prompt question prompt_template metadata =
     (let out = [''generate_prompt() Question: '' @ question] in
      case format_str prompt_template
             [(''user_question'', question), (''table_metadata_string'', metadata)] of
        Inl e \<Rightarrow> (out, Inl e)
      | Inr prompt \<Rightarrow> (out @ [''generate_prompt() Prompt: '' @ prompt], Inr prompt))"


section \<open>Waiting for the webserver\<close>

text \<open>
  What the outside world does is a parameter. \<open>popen_result\<close> is the exception
  \<open>subprocess.Popen\<close> raises, if any. \<open>connect_at w i\<close> is the outcome of the \<open>i\<close>-th call
  of \<open>socket.create_connection\<close> (counted from 0), and \<open>poll_at w i\<close> is what
  \<open>self.launcher.poll()\<close> answers when it is asked after that call: \<open>None\<close> while the
  launcher is running, its return code once it has exited.
\<close>

datatype connect_outcome =
    Connected
  | SocketTimeout
  | ConnectionRefused
  | ConnectRaised exn

record world =
  popen_result :: "exn option"
  connect_at :: "nat \<Rightarrow> connect_outcome"
  poll_at :: "nat \<Rightarrow> int option"

text \<open>
  The effects of \<open>__enter__\<close>: how many connections were attempted, the duration in
  seconds of every \<open>time.sleep\<close> call in order, and the lines printed.
\<close>

record container =
  attempts :: nat
  sleeps :: "nat list"
  stdout :: "string list"

definition startup :: container where
  "startup = \<lparr>attempts = 0, sleeps = [], stdout = []\<rparr>"

text \<open>
  \<open>webserver_ready\<close>: one connection attempt. Only \<open>socket.timeout\<close> and
  \<open>ConnectionRefusedError\<close> are caught; then the launcher is polled, and a return code
  raises \<open>RuntimeError\<close> with the code in its message. Any other exception of the
  connection attempt passes through.
\<close>

definition launcher_check :: "world \<Rightarrow> nat \<Rightarrow> exn + bool" where
  "launcher_check w i =
     (case poll_at w i of
        Some retcode \<Rightarrow>
          Inl (RuntimeError (''launcher exited unexpectedly with code '' @ str_int retcode))
      | None \<Rightarrow> Inr False)"

definition webserver_ready :: "world \<Rightarrow> container \<Rightarrow> container \<times> (exn + bool)" where
  "webserver_ready w s =
     (let i = attempts s; s' = s\<lparr>attempts := Suc i\<rparr> in
      case connect_at w i of
        Connected \<Rightarrow> (s', Inr True)
      | SocketTimeout \<Rightarrow> (s', launcher_check w i)
      | ConnectionRefused \<Rightarrow> (s', launcher_check w i)
      | ConnectRaised e \<Rightarrow> (s', Inl e))"

definition sleep :: "nat \<Rightarrow> container \<Rightarrow> container" where
  "sleep seconds s = s\<lparr>sleeps := sleeps s @ [seconds]\<rparr>"

text \<open>
  \<open>while not webserver_ready(): time.sleep(1.0)\<close>. The loop has no bound, so it is a
  partial function: \<open>None\<close> means that it never leaves the loop.
\<close>

partial_function (option) wait_until_ready ::
  "world \<Rightarrow> container \<Rightarrow> (container \<times> (exn + unit)) option" where
  "wait_until_ready w s =
     (case webserver_ready w s of
        (s', Inl e) \<Rightarrow> Some (s', Inl e)
      | (s', Inr ready) \<Rightarrow>
          if ready then Some (s', Inr ()) else wait_until_ready w (sleep 1 s'))"

text \<open>
  The first \<open>k\<close> rounds of the same loop: either it has stopped within them, or it is
  about to make its next attempt in the state given.
\<close>

datatype progress =
    StillPolling container
  | Stopped container "exn + unit"

fun poll_rounds :: "nat \<Rightarrow> world \<Rightarrow> container \<Rightarrow> progress" where
  "poll_rounds 0 w s = StillPolling s"
| "poll_rounds (Suc k) w s =
     (case webserver_ready w s of
        (s', Inl e) \<Rightarrow> Stopped s' (Inl e)
      | (s', Inr ready) \<Rightarrow>
          if ready then Stopped s' (Inr ()) else poll_rounds k w (sleep 1 s'))"

text \<open>
  \<open>__enter__\<close>: launch the server, wait for it, print. An exception of \<open>Popen\<close> ends it
  before the first attempt.
\<close>

definition enter :: "world \<Rightarrow> (container \<times> (exn + unit)) option" where
  "enter w =
     (case popen_result w of
        Some e \<Rightarrow> Some (startup, Inl e)
      | None \<Rightarrow>
          (case wait_until_ready w startup of
             None \<Rightarrow> None
           | Some (s, Inl e) \<Rightarrow> Some (s, Inl e)
           | Some (s, Inr u) \<Rightarrow> Some (s\<lparr>stdout := stdout s @ [''Webserver ready!'']\<rparr>, Inr ())))"

text \<open>A failed attempt with the launcher still running: the loop goes on.\<close>

definition stalled :: "world \<Rightarrow> nat \<Rightarrow> bool" where
  "stalled w i =
     ((connect_at w i = SocketTimeout \<or> connect_at w i = ConnectionRefused) \<and> poll_at w i = None)"

section \<open>The two request wrappers\<close>

text \<open>
  The client is a parameter: its blocking call returns a response or raises; its
  streaming call produces responses and then either completes or raises. What a
  wrapper does besides returning is recorded as a list of events, in order.
\<close>

record response =
  generated_text :: string

record token =
  tok_text :: string
  tok_special :: bool

record stream_response =
  token :: token

record client =
  client_generate :: "string \<Rightarrow> int \<Rightarrow> exn + response"
  client_generate_stream :: "string \<Rightarrow> int \<Rightarrow> stream_response list \<times> exn option"

datatype call_kind = Blocking | Streaming

datatype event =
    Printed string
  | Called call_kind string int

definition generate :: "client \<Rightarrow> string \<Rightarrow> string \<Rightarrow> event list \<times> (exn + string)" where
  "generate c question metadata =
     (let ev0 = [Printed ''Generating...''] in
      case generate_prompt question PROMPT_TEMPLATE metadata of
        (out, Inl e) \<Rightarrow> (ev0 @ map Printed out, Inl e)
      | (out, Inr prompt) \<Rightarrow>
          (let ev1 = ev0 @ map Printed out @ [Called Blocking prompt 1024] in
           case client_generate c prompt 1024 of
             Inl e \<Rightarrow> (ev1, Inl e)
           | Inr result \<Rightarrow>
               (ev1 @ [Printed ''Generated!'', Printed (''Result: '' @ generated_text result)],
                Inr (generated_text result))))"

text \<open>
  The body of the \<open>async for\<close> loop, over the responses that arrive. The generator is
  modelled as drained by its consumer: \<open>yielded\<close> is everything it yields, \<open>raised\<close> the
  exception that ends it, if one does.
\<close>

fun stream_loop :: "stream_response list \<Rightarrow> string list" where
  "stream_loop [] = []"
| "stream_loop (response # rest) =
     (if \<not> tok_special (token response) then tok_text (token response) # stream_loop rest
      else stream_loop rest)"

record stream_run =
  events :: "event list"
  yielded :: "string list"
  raised :: "exn option"

definition generate_stream :: "client \<Rightarrow> string \<Rightarrow> string \<Rightarrow> stream_run" where
  "generate_stream c question metadata =
     (case generate_prompt question PROMPT_TEMPLATE metadata of
        (out, Inl e) \<Rightarrow> \<lparr>events = map Printed out, yielded = [], raised = Some e\<rparr>
      | (out, Inr prompt) \<Rightarrow>
          (case client_generate_stream c prompt 1024 of
             (responses, err) \<Rightarrow>
               \<lparr>events = map Printed out @ [Called Streaming prompt 1024],
                yielded = stream_loop responses,
                raised = err\<rparr>))"

text \<open>The client calls among the events: kind, prompt and \<open>max_new_tokens\<close> of each.\<close>

fun client_calls :: "event list \<Rightarrow> (call_kind \<times> string \<times> int) list" where
  "client_calls [] = []"
| "client_calls (Printed line # evs) = client_calls evs"
| "client_calls (Called kind prompt limit # evs) = (kind, prompt, limit) # client_calls evs"

section \<open>Notions used to state the properties\<close>

text \<open>The literal text of the template around its three replacement fields.\<close>

definition before_question :: string where
  "before_question =
     text_lines [''### Task'', ''Generate a SQL query to answer the following question:''] @ ''`''"

definition before_schema :: string where
  "before_schema =
     text_lines [''`'', '''', ''### Database Schema'',
       ''The query will run on a database with the following schema:'']"

definition after_schema :: string where
  "after_schema =
     text_lines ['''', '''', ''### SQL'',
       ''Follow these steps to create the SQL Query:'',
       ''1. Only use the columns and tables present in the database schema'',
       ''2. Use table aliases to prevent ambiguity when doing joins. For example, `SELECT table1.col1, table2.col1 FROM table1 JOIN table2 ON table1.id = table2.id`.'',
       ''''] @
     ''Given the database schema, here is the SQL query that answers `''"

definition after_question :: string where
  "after_question = text_lines [''`:'', ''```sql'']"

text \<open>Text without braces: \<open>format\<close> copies it.\<close>

definition plain :: "string \<Rightarrow> bool" where
  "plain s = (CHR ''{'' \<notin> set s \<and> CHR ''}'' \<notin> set s)"

text \<open>The number of positions of \<open>hay\<close> at which \<open>needle\<close> occurs.\<close>

fun occurrences :: "string \<Rightarrow> string \<Rightarrow> nat" where
  "occurrences needle [] = (if needle = [] then 1 else 0)"
| "occurrences needle (c # cs) =
     (if prefix needle (c # cs) then 1 else 0) + occurrences needle cs"

text \<open>Worlds and clients on which the theorems below are exercised.\<close>

definition accepting_world :: world where
  "accepting_world =
     \<lparr>popen_result = None, connect_at = (\<lambda>i. Connected), poll_at = (\<lambda>i. None)\<rparr>"

definition slow_start_world :: world where
  "slow_start_world =
     \<lparr>popen_result = None,
      connect_at = (\<lambda>i. if i < 2 then ConnectionRefused else Connected),
      poll_at = (\<lambda>i. None)\<rparr>"

definition crashing_world :: world where
  "crashing_world =
     \<lparr>popen_result = None,
      connect_at = (\<lambda>i. ConnectionRefused),
      poll_at = (\<lambda>i. if i < 2 then None else Some (- 9))\<rparr>"

definition silent_world :: world where
  "silent_world =
     \<lparr>popen_result = None,
      connect_at = (\<lambda>i. if even i then ConnectionRefused else SocketTimeout),
      poll_at = (\<lambda>i. None)\<rparr>"

definition reset_world :: world where
  "reset_world =
     \<lparr>popen_result = None,
      connect_at = (\<lambda>i. ConnectRaised (External ''ConnectionResetError'')),
      poll_at = (\<lambda>i. Some 7)\<rparr>"

definition unreachable_world :: world where
  "unreachable_world =
     \<lparr>popen_result = None,
      connect_at =
        (\<lambda>i. if i < 2 then ConnectionRefused
             else ConnectRaised (External ''OSError: Network is unreachable'')),
      poll_at = (\<lambda>i. None)\<rparr>"

definition failing_client :: client where
  "failing_client =
     \<lparr>client_generate = (\<lambda>prompt limit. Inl (External ''connection reset'')),
      client_generate_stream =
        (\<lambda>prompt limit.
           ([\<lparr>token = \<lparr>tok_text = ''SELECT'', tok_special = False\<rparr>\<rparr>],
            Some (External ''connection reset'')))\<rparr>"

definition answering_client :: client where
  "answering_client =
     \<lparr>client_generate = (\<lambda>prompt limit. Inr \<lparr>generated_text = ''SELECT 1;''\<rparr>),
      client_generate_stream =
        (\<lambda>prompt limit.
           ([\<lparr>token = \<lparr>tok_text = ''SELECT'', tok_special = False\<rparr>\<rparr>,
             \<lparr>token = \<lparr>tok_text = '' 1;'', tok_special = False\<rparr>\<rparr>,
             \<lparr>token = \<lparr>tok_text = ''</s>'', tok_special = True\<rparr>\<rparr>],
            None))\<rparr>"

section \<open>The rendered prompt\<close>

lemma template_split:
  "PROMPT_TEMPLATE =
     before_question @ ''{user_question}'' @ before_schema @ ''{table_metadata_string}'' @
     after_schema @ ''{user_question}'' @ after_question"
  by (simp add: PROMPT_TEMPLATE_def before_question_def before_schema_def after_schema_def
        after_question_def text_lines_def)

lemma segments_plain:
  "plain before_question" "plain before_schema" "plain after_schema" "plain after_question"
  by (simp_all add: plain_def before_question_def before_schema_def after_schema_def
        after_question_def text_lines_def)

lemma format_str_plain:
  "plain s \<Longrightarrow>
   format_str (s @ rest) kwargs =
     (case format_str rest kwargs of Inl e \<Rightarrow> Inl e | Inr r \<Rightarrow> Inr (s @ r))"
  by (induction s) (auto simp: plain_def split: sum.splits)

lemma take_field_name:
  "set name \<inter> set ''{}!:.['' = {} \<Longrightarrow>
   take_field acc (name @ CHR ''}'' # rest) = Inr (rev acc @ name, rest)"
  by (induction name arbitrary: acc) auto

lemma format_str_field:
  assumes "set name \<inter> set ''{}!:.['' = {}" and "name \<noteq> []"
  shows "format_str (CHR ''{'' # name @ CHR ''}'' # rest) kwargs =
     (case lookup_field kwargs name of
        Inl e \<Rightarrow> Inl e
      | Inr v \<Rightarrow> (case format_str rest kwargs of Inl e \<Rightarrow> Inl e | Inr r \<Rightarrow> Inr (v @ r)))"
proof -
  from assms obtain d ds where name: "name = d # ds" by (cases name) auto
  with assms(1) have d: "d \<noteq> CHR ''{''" by auto
  have "take_field [] (name @ CHR ''}'' # rest) = Inr (name, rest)"
    using take_field_name [OF assms(1), of "[]" rest] by simp
  then show ?thesis
    using d by (simp add: name del: take_field.simps)
qed

lemma format_str_user_question:
  "format_str (''{user_question}'' @ rest)
     [(''user_question'', q), (''table_metadata_string'', m)] =
     (case format_str rest [(''user_question'', q), (''table_metadata_string'', m)] of
        Inl e \<Rightarrow> Inl e | Inr r \<Rightarrow> Inr (q @ r))"
  using format_str_field [of "''user_question''" rest]
  by (simp add: lookup_field_def)

lemma format_str_table_metadata_string:
  "format_str (''{table_metadata_string}'' @ rest)
     [(''user_question'', q), (''table_metadata_string'', m)] =
     (case format_str rest [(''user_question'', q), (''table_metadata_string'', m)] of
        Inl e \<Rightarrow> Inl e | Inr r \<Rightarrow> Inr (m @ r))"
  using format_str_field [of "''table_metadata_string''" rest]
  by (simp add: lookup_field_def)

lemma format_str_template:
  "format_str PROMPT_TEMPLATE [(''user_question'', q), (''table_metadata_string'', m)] =
     Inr (before_question @ q @ before_schema @ m @ after_schema @ q @ after_question)"
proof -
  have last:
    "format_str after_question [(''user_question'', q), (''table_metadata_string'', m)] =
       Inr after_question"
    using format_str_plain [OF segments_plain(4), of "[]"] by simp
  show ?thesis
    unfolding template_split
    by (simp only: format_str_plain [OF segments_plain(1)] format_str_plain [OF segments_plain(2)]
          format_str_plain [OF segments_plain(3)] format_str_user_question
          format_str_table_metadata_string last sum.case)
qed

lemma generate_prompt_default:
  "generate_prompt q PROMPT_TEMPLATE m =
     ([''generate_prompt() Question: '' @ q,
       ''generate_prompt() Prompt: '' @
         before_question @ q @ before_schema @ m @ after_schema @ q @ after_question],
      Inr (before_question @ q @ before_schema @ m @ after_schema @ q @ after_question))"
  by (simp add: generate_prompt_def format_str_template)

text \<open>
  C1, as amended. For every question and every schema text, \<open>generate_prompt\<close> on the
  fixed template returns the template with its replacement fields filled in verbatim:
  the question at both \<open>{user_question}\<close> fields, the schema text at the one
  \<open>{table_metadata_string}\<close> field, and the brace-free template text around them
  unchanged. The result is a function of the two inputs alone.
\<close>

theorem render_prompt_fills_template:
  "snd (generate_prompt question PROMPT_TEMPLATE metadata) =
     Inr (before_question @ question @ before_schema @ metadata @
          after_schema @ question @ after_question) \<and>
   PROMPT_TEMPLATE =
     before_question @ ''{user_question}'' @ before_schema @ ''{table_metadata_string}'' @
     after_schema @ ''{user_question}'' @ after_question \<and>
   plain before_question \<and> plain before_schema \<and> plain after_schema \<and> plain after_question"
  using template_split segments_plain by (simp add: generate_prompt_default)

text \<open>
  C1 as stated fails: the question does not occur exactly once in the prompt. For a
  question that occurs neither in the template nor in the schema text, it occurs twice.
\<close>

theorem render_prompt_question_twice:
  "map_sum id (occurrences ''How many salespeople are there?'')
     (snd (generate_prompt ''How many salespeople are there?'' PROMPT_TEMPLATE
        ''CREATE TABLE t (id INTEGER);'')) = Inr 2"
  by (simp add: generate_prompt_default before_question_def before_schema_def after_schema_def
        after_question_def text_lines_def)

text \<open>
  C6. For the question \<open>How many salespeople are there?\<close> and the default schema, the
  prompt begins with \<open>### Task\<close>, a newline and \<open>Generate a SQL query\<close>, contains the
  question and the whole schema text, and ends with the open code fence and a newline.
\<close>

theorem render_prompt_scenario:
  "\<exists>prompt.
     snd (generate_prompt ''How many salespeople are there?'' PROMPT_TEMPLATE METADATA_DEFAULT) =
       Inr prompt \<and>
     prefix ''### Task\<newline>Generate a SQL query'' prompt \<and>
     sublist ''How many salespeople are there?'' prompt \<and>
     sublist METADATA_DEFAULT prompt \<and>
     suffix ''```sql\<newline>'' prompt"
proof -
  let ?q = "''How many salespeople are there?''"
  let ?p = "before_question @ ?q @ before_schema @ METADATA_DEFAULT @
            after_schema @ ?q @ after_question"
  have "snd (generate_prompt ?q PROMPT_TEMPLATE METADATA_DEFAULT) = Inr ?p"
    by (simp add: generate_prompt_default)
  moreover have "prefix ''### Task\<newline>Generate a SQL query'' ?p"
    by (simp add: before_question_def text_lines_def)
  moreover have "sublist ?q ?p"
    by (rule sublist_appendI)
  moreover have "sublist METADATA_DEFAULT ?p"
    using sublist_appendI [of METADATA_DEFAULT "before_question @ ?q @ before_schema"] by simp
  moreover have "suffix ''```sql\<newline>'' ?p"
  proof -
    have "after_question = ''`:\<newline>'' @ ''```sql\<newline>''"
      by (simp add: after_question_def text_lines_def)
    then have "?p = (before_question @ ?q @ before_schema @ METADATA_DEFAULT @
                     after_schema @ ?q @ ''`:\<newline>'') @ ''```sql\<newline>''"
      by simp
    then show ?thesis by (rule suffixI)
  qed
  ultimately show ?thesis by blast
qed

section \<open>The readiness loop\<close>

lemma webserver_ready_stalled:
  "stalled w (attempts s) \<Longrightarrow> webserver_ready w s = (s\<lparr>attempts := Suc (attempts s)\<rparr>, Inr False)"
  by (auto simp: stalled_def webserver_ready_def launcher_check_def)

lemma webserver_ready_attempts:
  "webserver_ready w s = (s', r) \<Longrightarrow> s' = s\<lparr>attempts := Suc (attempts s)\<rparr>"
  by (auto simp: webserver_ready_def Let_def split: connect_outcome.splits)

lemma webserver_ready_True:
  "webserver_ready w s = (s', Inr True) \<Longrightarrow> connect_at w (attempts s) = Connected"
  by (auto simp: webserver_ready_def Let_def launcher_check_def
      split: connect_outcome.splits option.splits)

lemma poll_rounds_stalled:
  "(\<forall>i<k. stalled w (attempts s + i)) \<Longrightarrow>
   poll_rounds k w s =
     StillPolling (s\<lparr>attempts := attempts s + k, sleeps := sleeps s @ replicate k 1\<rparr>)"
proof (induction k arbitrary: s)
  case 0
  show ?case by simp
next
  case (Suc k)
  from Suc.prems have now: "stalled w (attempts s)"
    by (metis add.right_neutral zero_less_Suc)
  let ?s = "sleep 1 (s\<lparr>attempts := Suc (attempts s)\<rparr>)"
  have "\<forall>i<k. stalled w (attempts ?s + i)"
    using Suc.prems by (simp add: sleep_def) (metis Suc_less_eq add_Suc_right)
  from Suc.IH [OF this] show ?case
    by (simp add: webserver_ready_stalled [OF now] sleep_def replicate_app_Cons_same)
qed

lemma wait_stopped:
  "poll_rounds k w s = Stopped s' r \<Longrightarrow> wait_until_ready w s = Some (s', r)"
proof (induction k arbitrary: s)
  case 0
  then show ?case by simp
next
  case (Suc k)
  then show ?case
    by (subst wait_until_ready.simps) (auto split: prod.splits sum.splits if_splits)
qed

lemma wait_still:
  "poll_rounds k w s = StillPolling s' \<Longrightarrow> wait_until_ready w s = wait_until_ready w s'"
proof (induction k arbitrary: s)
  case 0
  then show ?case by simp
next
  case (Suc k)
  then show ?case
    by (subst wait_until_ready.simps) (auto split: prod.splits sum.splits if_splits)
qed

lemma wait_rounds:
  assumes "wait_until_ready w s = Some y"
  shows "\<exists>k. poll_rounds k w s = Stopped (fst y) (snd y)"
proof (rule wait_until_ready.raw_induct
    [where P = "\<lambda>w s y. \<exists>k. poll_rounds k w s = Stopped (fst y) (snd y)"
       and w = w and s = s and y = y])
  show "wait_until_ready w s = Some y" by fact
next
  fix f w s y
  assume IH: "\<And>w s y. f w s = Some y \<Longrightarrow> \<exists>k. poll_rounds k w s = Stopped (fst y) (snd y)"
    and step: "(case webserver_ready w s of
                  (s', Inl e) \<Rightarrow> Some (s', Inl e)
                | (s', Inr ready) \<Rightarrow> if ready then Some (s', Inr ()) else f w (sleep 1 s')) = Some y"
  obtain s' r where wr: "webserver_ready w s = (s', r)" by (cases "webserver_ready w s")
  show "\<exists>k. poll_rounds k w s = Stopped (fst y) (snd y)"
  proof (cases r)
    case (Inl e)
    with wr step have "poll_rounds (Suc 0) w s = Stopped (fst y) (snd y)" by auto
    then show ?thesis ..
  next
    case (Inr ready)
    show ?thesis
    proof (cases ready)
      case True
      with wr Inr step have "poll_rounds (Suc 0) w s = Stopped (fst y) (snd y)" by auto
      then show ?thesis ..
    next
      case False
      with wr Inr step have "f w (sleep 1 s') = Some y" by simp
      from IH [OF this] obtain k where "poll_rounds k w (sleep 1 s') = Stopped (fst y) (snd y)" ..
      with wr Inr False have "poll_rounds (Suc k) w s = Stopped (fst y) (snd y)" by simp
      then show ?thesis ..
    qed
  qed
qed

lemma wait_never:
  assumes "\<And>k. \<exists>s'. poll_rounds k w s = StillPolling s'"
  shows "wait_until_ready w s = None"
proof (cases "wait_until_ready w s")
  case None
  then show ?thesis .
next
  case (Some y)
  from wait_rounds [OF this] obtain k where "poll_rounds k w s = Stopped (fst y) (snd y)" ..
  with assms [of k] show ?thesis by auto
qed

lemma rounds_ready_connected:
  "poll_rounds k w s = Stopped s' (Inr u) \<Longrightarrow>
   attempts s < attempts s' \<and> connect_at w (attempts s' - 1) = Connected"
proof (induction k arbitrary: s)
  case 0
  then show ?case by simp
next
  case (Suc k)
  obtain s1 r where wr: "webserver_ready w s = (s1, r)" by (cases "webserver_ready w s")
  then have s1: "s1 = s\<lparr>attempts := Suc (attempts s)\<rparr>" by (rule webserver_ready_attempts)
  show ?case
  proof (cases r)
    case (Inl e)
    with wr Suc.prems show ?thesis by simp
  next
    case (Inr ready)
    show ?thesis
    proof (cases ready)
      case True
      with wr Inr Suc.prems have "s' = s1" by simp
      moreover from wr Inr True have "connect_at w (attempts s) = Connected"
        by (auto dest: webserver_ready_True)
      ultimately show ?thesis using s1 by simp
    next
      case False
      with wr Inr Suc.prems have "poll_rounds k w (sleep 1 s1) = Stopped s' (Inr u)" by simp
      from Suc.IH [OF this] show ?thesis using s1 by (simp add: sleep_def)
    qed
  qed
qed


lemma rounds_more:
  "poll_rounds j w s = StillPolling s' \<Longrightarrow> poll_rounds (j + k) w s = poll_rounds k w s'"
proof (induction j arbitrary: s)
  case 0
  then show ?case by simp
next
  case (Suc j)
  then show ?case by (auto split: prod.splits sum.splits if_splits)
qed

lemma startup_stalled:
  "(\<forall>i<k. stalled w i) \<Longrightarrow>
   poll_rounds k w startup = StillPolling \<lparr>attempts = k, sleeps = replicate k 1, stdout = []\<rparr>"
  using poll_rounds_stalled [of k w startup] by (simp add: startup_def)

lemma slow_start_enter:
  "enter slow_start_world =
     Some (\<lparr>attempts = 3, sleeps = [1, 1], stdout = [''Webserver ready!'']\<rparr>, Inr ())"
proof -
  have "poll_rounds (Suc (Suc (Suc 0))) slow_start_world startup =
          Stopped \<lparr>attempts = 3, sleeps = [1, 1], stdout = []\<rparr> (Inr ())"
    by (simp add: slow_start_world_def startup_def webserver_ready_def launcher_check_def sleep_def)
  from wait_stopped [OF this] show ?thesis
    by (simp add: enter_def slow_start_world_def)
qed

text \<open>
  C2. \<open>__enter__\<close> reports readiness only after a connection attempt has succeeded: when
  it returns normally, the launcher was started and the last attempt made was accepted.
  And when the very first attempt is accepted, it returns after that one attempt,
  without any sleep.
\<close>

theorem await_ready_needs_connection:
  "(enter w = Some (s', Inr u) \<longrightarrow>
      popen_result w = None \<and> 0 < attempts s' \<and> connect_at w (attempts s' - 1) = Connected) \<and>
   (popen_result w = None \<and> connect_at w 0 = Connected \<longrightarrow>
      enter w = Some (\<lparr>attempts = 1, sleeps = [], stdout = [''Webserver ready!'']\<rparr>, Inr ()))"
proof (intro conjI impI)
  assume ready: "enter w = Some (s', Inr u)"
  then show popen: "popen_result w = None"
    by (auto simp: enter_def split: option.splits)
  with ready obtain s1 u1 where w1: "wait_until_ready w startup = Some (s1, Inr u1)"
    and s': "s' = s1\<lparr>stdout := stdout s1 @ [''Webserver ready!'']\<rparr>"
    by (auto simp: enter_def split: option.splits prod.splits sum.splits)
  from wait_rounds [OF w1] obtain k where "poll_rounds k w startup = Stopped s1 (Inr u1)" by auto
  from rounds_ready_connected [OF this]
  show "0 < attempts s'" and "connect_at w (attempts s' - 1) = Connected"
    by (simp_all add: s')
next
  assume a: "popen_result w = None \<and> connect_at w 0 = Connected"
  then have "webserver_ready w startup = (\<lparr>attempts = 1, sleeps = [], stdout = []\<rparr>, Inr True)"
    by (simp add: webserver_ready_def startup_def)
  then have "poll_rounds (Suc 0) w startup = Stopped \<lparr>attempts = 1, sleeps = [], stdout = []\<rparr> (Inr ())"
    by simp
  from wait_stopped [OF this] a
  show "enter w = Some (\<lparr>attempts = 1, sleeps = [], stdout = [''Webserver ready!'']\<rparr>, Inr ())"
    by (simp add: enter_def)
qed

theorem await_ready_needs_connection_witness:
  "enter slow_start_world =
     Some (\<lparr>attempts = 3, sleeps = [1, 1], stdout = [''Webserver ready!'']\<rparr>, Inr ()) \<and>
   connect_at slow_start_world 2 = Connected \<and>
   popen_result accepting_world = None \<and> connect_at accepting_world 0 = Connected \<and>
   enter accepting_world =
     Some (\<lparr>attempts = 1, sleeps = [], stdout = [''Webserver ready!'']\<rparr>, Inr ())"
  using slow_start_enter
    await_ready_needs_connection [of slow_start_world
      "\<lparr>attempts = 3, sleeps = [1, 1], stdout = [''Webserver ready!'']\<rparr>" "()"]
    await_ready_needs_connection [of accepting_world]
  by (simp add: accepting_world_def)

text \<open>
  C3, as amended. Let the loop reach its attempt number \<open>k\<close> (every earlier attempt
  failed while the launcher was running). If that attempt ends in \<open>socket.timeout\<close> or
  \<open>ConnectionRefusedError\<close>, the two failures \<open>webserver_ready\<close> catches, and the
  launcher has exited with code \<open>N\<close>, then \<open>__enter__\<close> raises the \<open>RuntimeError\<close> naming
  \<open>N\<close> right there: \<open>k + 1\<close> attempts in all, \<open>k\<close> sleeps, nothing after.
\<close>

theorem await_ready_launch_failure:
  assumes "popen_result w = None"
    and "\<forall>i<k. stalled w i"
    and "connect_at w k = SocketTimeout \<or> connect_at w k = ConnectionRefused"
    and "poll_at w k = Some N"
  shows "enter w =
     Some (\<lparr>attempts = Suc k, sleeps = replicate k 1, stdout = []\<rparr>,
           Inl (RuntimeError (''launcher exited unexpectedly with code '' @ str_int N)))"
proof -
  let ?sk = "\<lparr>attempts = k, sleeps = replicate k 1, stdout = []\<rparr>"
  let ?r = "Inl (RuntimeError (''launcher exited unexpectedly with code '' @ str_int N)) :: exn + unit"
  have "poll_rounds k w startup = StillPolling ?sk"
    using assms(2) by (rule startup_stalled)
  then have "poll_rounds (k + Suc 0) w startup = poll_rounds (Suc 0) w ?sk"
    by (rule rounds_more)
  also have "\<dots> = Stopped \<lparr>attempts = Suc k, sleeps = replicate k 1, stdout = []\<rparr> ?r"
    using assms(3,4) by (auto simp: webserver_ready_def launcher_check_def)
  finally have "wait_until_ready w startup =
      Some (\<lparr>attempts = Suc k, sleeps = replicate k 1, stdout = []\<rparr>, ?r)"
    by (rule wait_stopped)
  with assms(1) show ?thesis by (simp add: enter_def)
qed

theorem await_ready_launch_failure_witness:
  "popen_result crashing_world = None \<and>
   stalled crashing_world 0 \<and> stalled crashing_world 1 \<and>
   connect_at crashing_world 2 = ConnectionRefused \<and>
   poll_at crashing_world 2 = Some (- 9) \<and>
   enter crashing_world =
     Some (\<lparr>attempts = 3, sleeps = [1, 1], stdout = []\<rparr>,
           Inl (RuntimeError ''launcher exited unexpectedly with code -9''))"
proof -
  have h: "\<forall>i<2. stalled crashing_world i"
    by (simp add: crashing_world_def stalled_def)
  have s: "str_int (- 9) = ''-9''"
    by (simp add: str_int_def)
  show ?thesis
    using h s await_ready_launch_failure [of crashing_world 2 "- 9"]
    by (simp add: crashing_world_def numeral_2_eq_2)
qed

text \<open>
  C3 as stated fails for a failed attempt of another kind: the connection is reset
  while the launcher has already exited with code 7. The error of the connection
  passes through, the launcher is not polled, and no error names the code.
\<close>

theorem await_ready_other_error_not_launch_failure:
  "poll_at reset_world 0 = Some 7 \<and>
   enter reset_world =
     Some (\<lparr>attempts = 1, sleeps = [], stdout = []\<rparr>, Inl (External ''ConnectionResetError'')) \<and>
   enter reset_world \<noteq>
     Some (\<lparr>attempts = 1, sleeps = [], stdout = []\<rparr>,
           Inl (RuntimeError (''launcher exited unexpectedly with code '' @ str_int 7)))"
proof -
  have "poll_rounds (Suc 0) reset_world startup =
          Stopped \<lparr>attempts = 1, sleeps = [], stdout = []\<rparr> (Inl (External ''ConnectionResetError''))"
    by (simp add: reset_world_def startup_def webserver_ready_def)
  from wait_stopped [OF this] show ?thesis
    by (simp add: enter_def reset_world_def)
qed

text \<open>
  C4, as amended. After \<open>K\<close> attempts that ended in \<open>socket.timeout\<close> or
  \<open>ConnectionRefusedError\<close> with the launcher still running, the loop has slept \<open>K\<close>
  times, one second each, and is about to make attempt \<open>K\<close>: what it does from the start
  is what it does from there. If every attempt ends so and the launcher never exits,
  \<open>__enter__\<close> neither returns nor raises; no error comes from elapsed time.
\<close>

theorem await_ready_never_times_out:
  assumes "popen_result w = None"
  shows "((\<forall>i<K. stalled w i) \<longrightarrow>
            poll_rounds K w startup =
              StillPolling \<lparr>attempts = K, sleeps = replicate K 1, stdout = []\<rparr> \<and>
            wait_until_ready w startup =
              wait_until_ready w \<lparr>attempts = K, sleeps = replicate K 1, stdout = []\<rparr>) \<and>
         ((\<forall>i. stalled w i) \<longrightarrow> enter w = None)"
proof (intro conjI impI)
  assume "\<forall>i<K. stalled w i"
  then show r: "poll_rounds K w startup =
      StillPolling \<lparr>attempts = K, sleeps = replicate K 1, stdout = []\<rparr>"
    by (rule startup_stalled)
  then show "wait_until_ready w startup =
      wait_until_ready w \<lparr>attempts = K, sleeps = replicate K 1, stdout = []\<rparr>"
    by (rule wait_still)
next
  assume all: "\<forall>i. stalled w i"
  have "wait_until_ready w startup = None"
  proof (rule wait_never)
    fix k
    from all have "\<forall>i<k. stalled w i" by simp
    from startup_stalled [OF this] show "\<exists>s'. poll_rounds k w startup = StillPolling s'" ..
  qed
  with assms show "enter w = None" by (simp add: enter_def)
qed

theorem await_ready_never_times_out_witness:
  "popen_result silent_world = None \<and>
   (\<forall>i. stalled silent_world i) \<and>
   poll_rounds 3 silent_world startup =
     StillPolling \<lparr>attempts = 3, sleeps = [1, 1, 1], stdout = []\<rparr> \<and>
   enter silent_world = None"
proof -
  have h: "\<forall>i. stalled silent_world i"
    by (simp add: silent_world_def stalled_def)
  show ?thesis
    using h await_ready_never_times_out [of silent_world 3]
    by (simp add: silent_world_def numeral_3_eq_3)
qed

text \<open>
  C4 as stated fails: the launcher never accepts a connection and never exits, two
  attempts are refused and the third ends in another error. \<open>__enter__\<close> fails with it
  after three attempts.
\<close>

theorem await_ready_fails_while_launcher_runs:
  "enter unreachable_world =
     Some (\<lparr>attempts = 3, sleeps = [1, 1], stdout = []\<rparr>,
           Inl (External ''OSError: Network is unreachable''))"
proof -
  have "poll_rounds (Suc (Suc (Suc 0))) unreachable_world startup =
          Stopped \<lparr>attempts = 3, sleeps = [1, 1], stdout = []\<rparr>
            (Inl (External ''OSError: Network is unreachable''))"
    by (simp add: unreachable_world_def startup_def webserver_ready_def launcher_check_def
          sleep_def)
  from wait_stopped [OF this] show ?thesis
    by (simp add: enter_def unreachable_world_def)
qed

section \<open>Requests\<close>

lemma stream_loop_filter:
  "stream_loop responses =
     map (\<lambda>r. tok_text (token r)) (filter (\<lambda>r. \<not> tok_special (token r)) responses)"
  by (induction responses) simp_all

lemma client_calls_append:
  "client_calls (xs @ ys) = client_calls xs @ client_calls ys"
  by (induction xs rule: client_calls.induct) simp_all

lemma client_calls_Printed:
  "client_calls (map Printed out) = []"
  by (induction out) simp_all

lemma generate_calls:
  "client_calls (fst (generate c q m)) =
     [(Blocking, before_question @ q @ before_schema @ m @ after_schema @ q @ after_question, 1024)]"
  by (simp add: generate_def generate_prompt_default Let_def split: sum.splits)

lemma generate_stream_calls:
  "client_calls (events (generate_stream c q m)) =
     [(Streaming, before_question @ q @ before_schema @ m @ after_schema @ q @ after_question, 1024)]"
  by (simp add: generate_stream_def generate_prompt_default split: prod.splits)

text \<open>
  C5. \<open>generate_stream\<close> yields the text of exactly the responses whose token is not
  special, in the order of arrival, and ends as the client's stream ends.
\<close>

theorem generate_stream_yields_ordinary_tokens:
  "\<exists>prompt.
     snd (generate_prompt question PROMPT_TEMPLATE metadata) = Inr prompt \<and>
     yielded (generate_stream c question metadata) =
       map (\<lambda>r. tok_text (token r))
         (filter (\<lambda>r. \<not> tok_special (token r)) (fst (client_generate_stream c prompt 1024))) \<and>
     raised (generate_stream c question metadata) = snd (client_generate_stream c prompt 1024)"
  by (simp add: generate_stream_def generate_prompt_default stream_loop_filter split: prod.splits)

text \<open>
  C7, as amended. An exception of the client call is the exception of \<open>generate\<close>, and
  of \<open>generate_stream\<close>, unchanged; the client was called once and no more. \<open>generate\<close>
  then returns nothing. \<open>generate_stream\<close> has by then yielded the texts of the ordinary
  tokens that arrived before the exception, and ends with it. When the blocking call
  succeeds, \<open>generate\<close> returns the \<open>generated_text\<close> of its result.
\<close>

theorem client_errors_propagate:
  "\<exists>prompt.
     snd (generate_prompt question PROMPT_TEMPLATE metadata) = Inr prompt \<and>
     (\<forall>e. client_generate c prompt 1024 = Inl e \<longrightarrow>
        snd (generate c question metadata) = Inl e \<and>
        client_calls (fst (generate c question metadata)) = [(Blocking, prompt, 1024)]) \<and>
     (\<forall>result. client_generate c prompt 1024 = Inr result \<longrightarrow>
        snd (generate c question metadata) = Inr (generated_text result)) \<and>
     (\<forall>responses e. client_generate_stream c prompt 1024 = (responses, Some e) \<longrightarrow>
        raised (generate_stream c question metadata) = Some e \<and>
        yielded (generate_stream c question metadata) = stream_loop responses \<and>
        client_calls (events (generate_stream c question metadata)) = [(Streaming, prompt, 1024)])"
  using generate_calls [of c question metadata] generate_stream_calls [of c question metadata]
  by (auto simp: generate_def generate_stream_def generate_prompt_default Let_def)

theorem client_errors_propagate_witness:
  "snd (generate failing_client ''Q'' ''M'') = Inl (External ''connection reset'') \<and>
   map fst (client_calls (fst (generate failing_client ''Q'' ''M''))) = [Blocking] \<and>
   raised (generate_stream failing_client ''Q'' ''M'') = Some (External ''connection reset'') \<and>
   yielded (generate_stream failing_client ''Q'' ''M'') = [''SELECT''] \<and>
   map fst (client_calls (events (generate_stream failing_client ''Q'' ''M''))) = [Streaming] \<and>
   snd (generate answering_client ''Q'' ''M'') = Inr ''SELECT 1;''"
  using client_errors_propagate [of "''Q''" "''M''" failing_client]
    client_errors_propagate [of "''Q''" "''M''" answering_client]
  by (auto simp: failing_client_def answering_client_def)

text \<open>
  C7 as stated fails in its last clause for \<open>generate_stream\<close>: when the stream breaks
  after one token, that token's text has been yielded before the exception.
\<close>

theorem generate_stream_yields_before_error:
  "yielded (generate_stream failing_client ''How many salespeople are there?'' ''M'') =
     [''SELECT''] \<and>
   raised (generate_stream failing_client ''How many salespeople are there?'' ''M'') =
     Some (External ''connection reset'')"
  by (simp add: generate_stream_def generate_prompt_default failing_client_def)

text \<open>
  C9. Whatever the client, the question and the schema text, what each wrapper returns
  is what the client answers at \<open>max_new_tokens\<close> 1024 on the rendered prompt, and that
  is the one call it makes. Neither wrapper takes a limit from its caller.
\<close>

theorem max_new_tokens_is_1024:
  "\<exists>prompt.
     snd (generate_prompt question PROMPT_TEMPLATE metadata) = Inr prompt \<and>
     snd (generate c question metadata) =
       map_sum id generated_text (client_generate c prompt 1024) \<and>
     yielded (generate_stream c question metadata) =
       map (\<lambda>r. tok_text (token r))
         (filter (\<lambda>r. \<not> tok_special (token r)) (fst (client_generate_stream c prompt 1024))) \<and>
     raised (generate_stream c question metadata) = snd (client_generate_stream c prompt 1024) \<and>
     map (\<lambda>(kind, prompt, limit). limit) (client_calls (fst (generate c question metadata))) =
       [1024] \<and>
     map (\<lambda>(kind, prompt, limit). limit)
       (client_calls (events (generate_stream c question metadata))) = [1024]"
  by (simp add: generate_calls generate_stream_calls)
     (simp add: generate_def generate_stream_def generate_prompt_default stream_loop_filter
        Let_def split: sum.splits prod.splits)

text \<open>
  C10. For the same question and schema text, \<open>generate\<close> and \<open>generate_stream\<close> put
  the same prompt to their clients, the one \<open>generate_prompt\<close> returns on the fixed
  template: each returns what its client answers on that prompt.
\<close>

theorem same_prompt_on_both_paths:
  "\<exists>prompt.
     snd (generate_prompt question PROMPT_TEMPLATE metadata) = Inr prompt \<and>
     snd (generate c question metadata) =
       map_sum id generated_text (client_generate c prompt 1024) \<and>
     yielded (generate_stream c' question metadata) =
       map (\<lambda>r. tok_text (token r))
         (filter (\<lambda>r. \<not> tok_special (token r)) (fst (client_generate_stream c' prompt 1024))) \<and>
     raised (generate_stream c' question metadata) = snd (client_generate_stream c' prompt 1024) \<and>
     map (\<lambda>(kind, prompt, limit). prompt) (client_calls (fst (generate c question metadata))) =
       [prompt] \<and>
     map (\<lambda>(kind, prompt, limit). prompt)
       (client_calls (events (generate_stream c' question metadata))) = [prompt]"
  by (simp add: generate_calls generate_stream_calls)
     (simp add: generate_def generate_stream_def generate_prompt_default stream_loop_filter
        Let_def split: sum.splits prod.splits)

end
